theory Spec2Isabelle
  imports Complex_Main
begin

section \<open>ToDo-Master: the API server (backend/server.js) and the task form (frontend App.jsx)\<close>

text \<open>
  A shallow embedding of the two source files. JavaScript strings are modelled as
  \<open>string\<close>, one \<open>char\<close> per code unit; the 8-bit \<open>char\<close> covers the code units
  below 256, which is where every literal of the program lives. A value that may be
  \<^verbatim>\<open>undefined\<close> (a variable of \<^verbatim>\<open>process.env\<close>, the Origin header of a request)
  is a \<open>string option\<close>, with \<open>None\<close> for \<^verbatim>\<open>undefined\<close>.
\<close>

subsection \<open>String primitives used by the source\<close>

text \<open>
  \<^verbatim>\<open>Boolean(s)\<close> on a string: only the empty string is falsy.
\<close>

definition Boolean :: "string \<Rightarrow> bool" where
  "Boolean s = (s \<noteq> [])"

text \<open>
  The white space that \<^verbatim>\<open>String.prototype.trim\<close> removes, among the code units
  below 256: TAB, LF, VT, FF, CR, SPACE and NO-BREAK SPACE.
\<close>

definition isWhiteSpace :: "char \<Rightarrow> bool" where
  "isWhiteSpace c =
     (c = CHR 0x09 \<or> c = CHR 0x0A \<or> c = CHR 0x0B \<or> c = CHR 0x0C \<or> c = CHR 0x0D
      \<or> c = CHR 0x20 \<or> c = CHR 0xA0)"

definition trim :: "string \<Rightarrow> string" where
  "trim s = rev (dropWhile isWhiteSpace (rev (dropWhile isWhiteSpace s)))"

text \<open>
  \<^verbatim>\<open>o.replace(/\/$/, '')\<close>: the pattern has no \<^verbatim>\<open>g\<close> and no \<^verbatim>\<open>m\<close> flag, so it
  matches at most once, a \<^verbatim>\<open>/\<close> that is the last code unit of the string, and that one
  code unit is removed.
\<close>

definition replace_trailing_slash :: "string \<Rightarrow> string" where
  "replace_trailing_slash s = (if s \<noteq> [] \<and> last s = CHR ''/'' then butlast s else s)"

definition endsWith_slash :: "string \<Rightarrow> bool" where
  "endsWith_slash s = (s \<noteq> [] \<and> last s = CHR ''/'')"

definition endsWith_two_slashes :: "string \<Rightarrow> bool" where
  "endsWith_two_slashes s = (endsWith_slash s \<and> endsWith_slash (butlast s))"

definition no_trailing_slash :: "string \<Rightarrow> bool" where
  "no_trailing_slash s = (\<not> endsWith_slash s)"

subsection \<open>Arrays and \<^verbatim>\<open>Set\<close>\<close>

text \<open>
  \<^verbatim>\<open>new Set(xs)\<close> adds the elements of \<^verbatim>\<open>xs\<close> from left to right; an element that
  is already a member is not added again, and spreading the set lists its members in
  insertion order. So the first occurrence of every element survives, in order.
\<close>

definition Set_add :: "'a list \<Rightarrow> 'a \<Rightarrow> 'a list" where
  "Set_add members x = (if x \<in> set members then members else members @ [x])"

definition new_Set :: "'a list \<Rightarrow> 'a list" where
  "new_Set xs = foldl Set_add [] xs"

definition Array_includes :: "'a list \<Rightarrow> 'a \<Rightarrow> bool" where
  "Array_includes xs x = (x \<in> set xs)"

subsection \<open>The allowed origins (server.js, lines 17 to 43)\<close>

text \<open>
  The two module-level constants that \<^verbatim>\<open>configureAllowedOrigins\<close> reads. The binding
  \<^verbatim>\<open>CONFIG_ALLOWED_ORIGINS\<close> is \<^verbatim>\<open>const\<close>, but the array it names is mutable and
  \<^verbatim>\<open>push\<close> changes it in place: the function takes the module state and returns it.
\<close>

record origins_config =
  CONFIG_NODE_ENV :: "string option"
  CONFIG_ALLOWED_ORIGINS :: "string list"

text \<open>
  Lines 22 to 24, after \<^verbatim>\<open>split(',')\<close>: the pieces of the configured value are filtered
  with \<^verbatim>\<open>Boolean\<close> first and trimmed afterwards.
\<close>

definition init_CONFIG_ALLOWED_ORIGINS :: "string list \<Rightarrow> string list" where
  "init_CONFIG_ALLOWED_ORIGINS pieces = map trim (filter Boolean pieces)"

definition configureAllowedOrigins :: "origins_config \<Rightarrow> string list \<times> origins_config" where
  "configureAllowedOrigins c =
     (let c' = (if CONFIG_NODE_ENV c = Some ''development''
                then c\<lparr>CONFIG_ALLOWED_ORIGINS :=
                         CONFIG_ALLOWED_ORIGINS c @ [''http://localhost:5173'']\<rparr>
                else c)
      in (map replace_trailing_slash
            (filter Boolean (new_Set (CONFIG_ALLOWED_ORIGINS c'))), c'))"

text \<open>
  The builder of the specification, \<open>build(baseOrigins, env)\<close>: the module initialisation
  of lines 17 to 24 on the split configuration value, followed by the one call of line 43.
\<close>

definition build :: "string list \<Rightarrow> string option \<Rightarrow> string list" where
  "build B env =
     fst (configureAllowedOrigins
            \<lparr>CONFIG_NODE_ENV = env,
             CONFIG_ALLOWED_ORIGINS = init_CONFIG_ALLOWED_ORIGINS B\<rparr>)"

text \<open>
  One more call of \<^verbatim>\<open>configureAllowedOrigins()\<close>, seen from the module state: the
  state the call leaves behind.
\<close>

definition call_again :: "origins_config \<Rightarrow> origins_config" where
  "call_again c = snd (configureAllowedOrigins c)"

text \<open>
  The second copy of the module (lines 146 to 172 of the same file): lines 152 to 154
  and 158 to 169 repeat lines 22 to 24 and 30 to 40; the copies differ in their comments
  and in \<^verbatim>\<open>CONFIG_PORT\<close>, which the builder does not read.
\<close>

definition init_CONFIG_ALLOWED_ORIGINS2 :: "string list \<Rightarrow> string list" where
  "init_CONFIG_ALLOWED_ORIGINS2 pieces = map trim (filter Boolean pieces)"

definition configureAllowedOrigins2 :: "origins_config \<Rightarrow> string list \<times> origins_config" where
  "configureAllowedOrigins2 c =
     (let c' = (if CONFIG_NODE_ENV c = Some ''development''
                then c\<lparr>CONFIG_ALLOWED_ORIGINS :=
                         CONFIG_ALLOWED_ORIGINS c @ [''http://localhost:5173'']\<rparr>
                else c)
      in (map replace_trailing_slash
            (filter Boolean (new_Set (CONFIG_ALLOWED_ORIGINS c'))), c'))"

definition build2 :: "string list \<Rightarrow> string option \<Rightarrow> string list" where
  "build2 B env =
     fst (configureAllowedOrigins2
            \<lparr>CONFIG_NODE_ENV = env,
             CONFIG_ALLOWED_ORIGINS = init_CONFIG_ALLOWED_ORIGINS2 B\<rparr>)"

subsection \<open>JavaScript values and the JSON text sent by \<^verbatim>\<open>res.json\<close>\<close>

text \<open>
  A JavaScript number, as far as the program carries one: the handlers never compute
  with numbers, they pass on \<^verbatim>\<open>Number(process.env.PORT)\<close> and
  \<^verbatim>\<open>process.uptime()\<close>.
\<close>

datatype number = NaN | PosInfinity | NegInfinity | Finite real

datatype jsval =
    JSUndefined
  | JSNull
  | JSBoolean bool
  | JSString string
  | JSNumber number
  | JSArray "jsval list"
  | JSObject "(string \<times> jsval) list"

datatype json =
    JNull
  | JBoolean bool
  | JString string
  | JNumber real
  | JArray "json list"
  | JObject "(string \<times> json) list"

text \<open>
  \<^verbatim>\<open>JSON.stringify\<close>: a property whose value is \<^verbatim>\<open>undefined\<close> is left out of its
  object, an \<^verbatim>\<open>undefined\<close> array element and a number that is not finite are written as
  \<^verbatim>\<open>null\<close>, and \<^verbatim>\<open>undefined\<close> itself has no JSON text.
\<close>

fun JSON_stringify :: "jsval \<Rightarrow> json option"
  and stringify_elements :: "jsval list \<Rightarrow> json list"
  and stringify_properties :: "(string \<times> jsval) list \<Rightarrow> (string \<times> json) list" where
  "JSON_stringify JSUndefined = None"
| "JSON_stringify JSNull = Some JNull"
| "JSON_stringify (JSBoolean b) = Some (JBoolean b)"
| "JSON_stringify (JSString s) = Some (JString s)"
| "JSON_stringify (JSNumber n) = Some (case n of Finite r \<Rightarrow> JNumber r | _ \<Rightarrow> JNull)"
| "JSON_stringify (JSArray vs) = Some (JArray (stringify_elements vs))"
| "JSON_stringify (JSObject ps) = Some (JObject (stringify_properties ps))"
| "stringify_elements [] = []"
| "stringify_elements (v # vs) =
     (case JSON_stringify v of None \<Rightarrow> JNull | Some j \<Rightarrow> j) # stringify_elements vs"
| "stringify_properties [] = []"
| "stringify_properties (kv # ps) =
     (case JSON_stringify (snd kv) of
        None \<Rightarrow> stringify_properties ps
      | Some j \<Rightarrow> (fst kv, j) # stringify_properties ps)"

text \<open>
  Reading a JSON document: the member \<open>k\<close> of an object, and the value at the end of a
  path of member names such as \<open>api.env\<close>.
\<close>

fun json_member :: "json \<Rightarrow> string \<Rightarrow> json option" where
  "json_member (JObject ps) k = map_of ps k"
| "json_member _ k = None"

fun at_path :: "json \<Rightarrow> string list \<Rightarrow> json option" where
  "at_path j [] = Some j"
| "at_path j (k # ks) = (case json_member j k of None \<Rightarrow> None | Some j' \<Rightarrow> at_path j' ks)"

subsection \<open>Requests, responses and the handlers (server.js, lines 57 to 123)\<close>

text \<open>
  An error handed to the framework with \<^verbatim>\<open>next(err)\<close>: a plain \<^verbatim>\<open>new Error(message)\<close>,
  or an error that carries an HTTP status, as the ones of the body parser do.
\<close>

datatype error = Error string | HttpError nat string

datatype verb = GET | HEAD | OPTIONS | POST | PUT | PATCH | DELETE

text \<open>
  A request, as far as the application looks at it: the method, \<^verbatim>\<open>req.path\<close> (the
  path of the URL, without the query string), the Origin header, and two verdicts of
  the libraries on it.
  \<^item> \<open>body_failure\<close> is the error with which \<^verbatim>\<open>express.json()\<close> fails on the body
    of the request, \<open>None\<close> when it accepts the request. A body that is announced as
    JSON and does not parse fails with status 400; a request without a body is
    accepted.
  \<^item> \<open>validators_fresh\<close> says that the cache validators of the request
    (\<^verbatim>\<open>If-None-Match\<close>, \<^verbatim>\<open>If-Modified-Since\<close>) match the response about to be sent, as
    \<^verbatim>\<open>If-None-Match: *\<close> always does. A request without these headers has \<open>False\<close>.
\<close>

record request =
  http_method :: verb
  path :: string
  origin :: "string option"
  body_failure :: "error option"
  validators_fresh :: bool

datatype body = NoBody | Text string | Json json

record response =
  status :: nat
  body :: body

text \<open>
  The module state of the running server: the configuration constants and
  \<^verbatim>\<open>allowedOrigins\<close>, the constant of line 43.
\<close>

record server = origins_config +
  CONFIG_PORT :: number
  allowedOrigins :: "string list"

definition startup :: "string option \<Rightarrow> number \<Rightarrow> string list \<Rightarrow> server" where
  "startup env port pieces =
     (let (result, c) = configureAllowedOrigins
                          \<lparr>CONFIG_NODE_ENV = env,
                           CONFIG_ALLOWED_ORIGINS = init_CONFIG_ALLOWED_ORIGINS pieces\<rparr>
      in \<lparr>CONFIG_NODE_ENV = CONFIG_NODE_ENV c,
          CONFIG_ALLOWED_ORIGINS = CONFIG_ALLOWED_ORIGINS c,
          CONFIG_PORT = port,
          allowedOrigins = result\<rparr>)"

text \<open>
  What a handler reads from the process while it serves one request:
  \<^verbatim>\<open>process.env.GOOGLE_API_KEY\<close>, \<^verbatim>\<open>new Date().toISOString()\<close> and
  \<^verbatim>\<open>process.uptime()\<close>.
\<close>

record process =
  GOOGLE_API_KEY :: "string option"
  toISOString :: string
  uptime :: number

text \<open>
  The \<^verbatim>\<open>origin\<close> function given to \<^verbatim>\<open>cors\<close> (lines 57 to 64). \<^verbatim>\<open>callback(null, true)\<close>
  is \<open>Inr True\<close>, \<^verbatim>\<open>callback(new Error(m))\<close> is \<open>Inl (Error m)\<close>. \<^verbatim>\<open>!origin\<close> holds for
  \<^verbatim>\<open>undefined\<close> and for the empty string.
\<close>

definition cors_origin :: "string list \<Rightarrow> string option \<Rightarrow> error + bool" where
  "cors_origin allowed origin' =
     (case origin' of
        None \<Rightarrow> Inr True
      | Some v \<Rightarrow>
          if \<not> Boolean v then Inr True
          else if Array_includes allowed v then Inr True
          else Inl (Error (''CORS blocked for origin: '' @ v)))"

text \<open>
  A handler returns its response and the lines it wrote with \<^verbatim>\<open>console.log\<close>.
  \<^verbatim>\<open>res.send\<close> and \<^verbatim>\<open>res.json\<close> answer with status 200 unless \<^verbatim>\<open>res.status\<close> was
  called before.
\<close>

definition res_json :: "nat \<Rightarrow> jsval \<Rightarrow> response" where
  "res_json code v =
     \<lparr>status = code, body = (case JSON_stringify v of None \<Rightarrow> NoBody | Some j \<Rightarrow> Json j)\<rparr>"

definition handleRoot :: "response \<times> string list" where
  "handleRoot = (\<lparr>status = 200, body = Text ''welcome to the default page''\<rparr>, [])"

definition hasApiKey :: "process \<Rightarrow> bool" where
  "hasApiKey p = (case GOOGLE_API_KEY p of None \<Rightarrow> False | Some k \<Rightarrow> Boolean k)"

definition healthStatus :: "server \<Rightarrow> process \<Rightarrow> jsval" where
  "healthStatus srv p =
     JSObject
       [(''status'', JSString ''healthy''),
        (''timestamp'', JSString (toISOString p)),
        (''api'', JSObject
           [(''running'', JSBoolean True),
            (''port'', JSNumber (CONFIG_PORT srv)),
            (''env'', (case CONFIG_NODE_ENV srv of None \<Rightarrow> JSUndefined | Some e \<Rightarrow> JSString e)),
            (''allowedOrigins'', JSArray (map JSString (allowedOrigins srv)))]),
        (''gemini'', JSObject
           [(''configured'', JSBoolean (hasApiKey p)),
            (''model'', JSString (if hasApiKey p then ''gemini-2.5-flash'' else ''unavailable''))]),
        (''uptime'', JSNumber (uptime p))]"

definition handleHealthCheck :: "server \<Rightarrow> process \<Rightarrow> response \<times> string list" where
  "handleHealthCheck srv p =
     (res_json 200 (healthStatus srv p),
      [''['' @ toISOString p @ ''] API Status: Running, Gemini: ''
         @ (if hasApiKey p then ''Configured'' else ''Not configured'')])"

definition notFound :: "response \<times> string list" where
  "notFound = (res_json 404 (JSObject [(''error'', JSString ''Not found'')]), [])"

subsection \<open>The application (server.js, lines 47 to 123) on Express and cors\<close>

text \<open>
  The source registers, in this order, \<^verbatim>\<open>express.json()\<close>, the \<^verbatim>\<open>cors\<close> middleware,
  the two GET routes and the catch-all. What becomes of a request is decided by these
  registrations together with the libraries, whose behaviour with the options of the
  source (all defaults, except the \<^verbatim>\<open>origin\<close> function and \<^verbatim>\<open>credentials\<close>) is modelled
  below.

  The release of Express is not fixed by the source. The release lines 4.x and 5.x
  differ, for the routes of this program, only at the root route: next to \<open>/\<close>, 4.x
  accepts the empty path and 5.x accepts \<open>//\<close>.
\<close>

datatype express_release = Express4 | Express5

text \<open>
  Route paths are matched without regard to letter case (\<open>case sensitive routing\<close>
  is off). The route patterns of the program are ASCII, so that only the letters
  \<open>A\<close> to \<open>Z\<close> are folded.
\<close>

definition toLowerCase :: "char \<Rightarrow> char" where
  "toLowerCase c =
     (case map_of (zip ''ABCDEFGHIJKLMNOPQRSTUVWXYZ'' ''abcdefghijklmnopqrstuvwxyz'') c of
        None \<Rightarrow> c
      | Some l \<Rightarrow> l)"

text \<open>
  A route pattern without parameters against a request path, with \<open>strict routing\<close>
  off: the path is the pattern, or the pattern with one more slash at the end. For a
  pattern that ends with a slash, Express 4 makes that slash optional instead. The
  routes of the program are \<open>/\<close> and \<open>/health\<close>.
\<close>

definition path_matches :: "express_release \<Rightarrow> string \<Rightarrow> string \<Rightarrow> bool" where
  "path_matches release route p =
     (let q = map toLowerCase p; r = map toLowerCase route
      in q = r \<or>
         (case release of
            Express4 \<Rightarrow> if endsWith_slash r then q = butlast r else q = r @ ''/''
          | Express5 \<Rightarrow> q = r @ ''/''))"

text \<open>
  \<^verbatim>\<open>app.get(route, handler)\<close>: the handler answers GET requests for the route, and
  HEAD requests as well, since the program registers no HEAD handler.
\<close>

definition get_route :: "express_release \<Rightarrow> string \<Rightarrow> request \<Rightarrow> bool" where
  "get_route release route req =
     ((http_method req = GET \<or> http_method req = HEAD)
      \<and> path_matches release route (path req))"

text \<open>
  \<^verbatim>\<open>req.fresh\<close>, and what \<^verbatim>\<open>res.send\<close> (which \<^verbatim>\<open>res.json\<close> calls) makes of the status
  and the body that a handler gives it: a fresh request is answered with status 304,
  and a 304 response and the response to a HEAD request carry no body.
\<close>

definition req_fresh :: "request \<Rightarrow> nat \<Rightarrow> bool" where
  "req_fresh req code =
     ((http_method req = GET \<or> http_method req = HEAD)
      \<and> (200 \<le> code \<and> code < 300 \<or> code = 304)
      \<and> validators_fresh req)"

definition res_send :: "request \<Rightarrow> response \<Rightarrow> response" where
  "res_send req r =
     (let code = (if req_fresh req (status r) then 304 else status r)
      in \<lparr>status = code,
          body = (if code = 304 \<or> http_method req = HEAD then NoBody else body r)\<rparr>)"

definition answer :: "request \<Rightarrow> response \<times> string list \<Rightarrow> response \<times> string list" where
  "answer req handled = (res_send req (fst handled), snd handled)"

text \<open>
  The application. \<^verbatim>\<open>express.json()\<close> comes first and hands its error to the
  framework; it fills \<^verbatim>\<open>req.body\<close>, which no handler reads. The \<^verbatim>\<open>cors\<close> middleware
  runs the origin function and hands an error to the framework, so that no route runs;
  it answers an OPTIONS request itself, with status 204 and no body
  (\<open>preflightContinue\<close> is off). Otherwise the first matching route answers, and the
  last \<^verbatim>\<open>app.use\<close> answers what no route matched.
\<close>

definition app ::
  "express_release \<Rightarrow> server \<Rightarrow> process \<Rightarrow> request \<Rightarrow> error + (response \<times> string list)" where
  "app release srv p req =
     (case body_failure req of
        Some e \<Rightarrow> Inl e
      | None \<Rightarrow>
          (case cors_origin (allowedOrigins srv) (origin req) of
             Inl e \<Rightarrow> Inl e
           | Inr _ \<Rightarrow>
               if http_method req = OPTIONS then Inr (\<lparr>status = 204, body = NoBody\<rparr>, [])
               else Inr (answer req
                      (if get_route release ''/'' req then handleRoot
                       else if get_route release ''/health'' req then handleHealthCheck srv p
                       else notFound))))"

text \<open>
  The status that the client sees: the one of the response, or the one that the
  framework's final handler gives an error, which is the status of the error when
  that is an error status, and 500 otherwise.
\<close>

definition client_status :: "error + (response \<times> string list) \<Rightarrow> nat" where
  "client_status outcome =
     (case outcome of
        Inl (Error m) \<Rightarrow> 500
      | Inl (HttpError code m) \<Rightarrow> if 400 \<le> code \<and> code < 600 then code else 500
      | Inr x \<Rightarrow> status (fst x))"

text \<open>
  Reading an outcome of \<open>app\<close>: the request was answered with the given status and
  body; and the value at a path of member names in the JSON body of a response.
\<close>

definition responds :: "error + (response \<times> string list) \<Rightarrow> nat \<Rightarrow> body \<Rightarrow> bool" where
  "responds r code b =
     (case r of Inl e \<Rightarrow> False | Inr x \<Rightarrow> status (fst x) = code \<and> body (fst x) = b)"

definition response_field :: "response \<Rightarrow> string list \<Rightarrow> json option" where
  "response_field r ks = (case body r of Json j \<Rightarrow> at_path j ks | _ \<Rightarrow> None)"

subsection \<open>The task form (App.jsx, lines 6 to 44)\<close>

record task =
  task_id :: int
  task_text :: string

text \<open>
  The three state variables of the component. \<open>text'\<close> is the source's \<^verbatim>\<open>text\<close>.
\<close>

record ui_state =
  count :: int
  text' :: string
  tasks :: "task list"

text \<open>
  \<^verbatim>\<open>addTask\<close>, with the value of \<^verbatim>\<open>Date.now()\<close> as an argument. The two state updates
  take effect together: \<^verbatim>\<open>setTasks\<close> appends to the previous list, \<^verbatim>\<open>setText('')\<close>
  clears the input.
\<close>

definition addTask :: "int \<Rightarrow> ui_state \<Rightarrow> ui_state" where
  "addTask now s =
     (let trimmedText = trim (text' s)
      in if \<not> Boolean trimmedText then s
         else s\<lparr>tasks := tasks s @ [\<lparr>task_id = now, task_text = trimmedText\<rparr>],
                text' := []\<rparr>)"

section \<open>Properties\<close>

subsection \<open>Sets in insertion order\<close>

lemma filter_Set_add:
  "filter P (Set_add acc x) = (if P x then Set_add (filter P acc) x else filter P acc)"
  by (auto simp: Set_add_def)

lemma filter_foldl_Set_add:
  "filter P (foldl Set_add acc xs) = foldl Set_add (filter P acc) (filter P xs)"
  by (induction xs arbitrary: acc) (simp_all add: filter_Set_add)

lemma filter_new_Set: "filter P (new_Set xs) = new_Set (filter P xs)"
  by (simp add: new_Set_def filter_foldl_Set_add)

lemma set_foldl_Set_add: "set (foldl Set_add acc xs) = set acc \<union> set xs"
  by (induction xs arbitrary: acc) (auto simp: Set_add_def)

lemma set_new_Set: "set (new_Set xs) = set xs"
  by (simp add: new_Set_def set_foldl_Set_add)

lemma distinct_foldl_Set_add: "distinct acc \<Longrightarrow> distinct (foldl Set_add acc xs)"
  by (induction xs arbitrary: acc) (auto simp: Set_add_def)

lemma distinct_new_Set: "distinct (new_Set xs)"
  by (simp add: new_Set_def distinct_foldl_Set_add)

lemma new_Set_snoc_twice: "new_Set (xs @ [x, x]) = new_Set (xs @ [x])"
  by (simp add: new_Set_def Set_add_def)

subsection \<open>Strings\<close>

lemma trim_Nil: "trim [] = []"
  by (simp add: trim_def)

lemma endsWith_slash_replace:
  "endsWith_slash (replace_trailing_slash s) = endsWith_two_slashes s"
  by (auto simp: endsWith_slash_def replace_trailing_slash_def endsWith_two_slashes_def)

lemmas eval_build =
  build_def startup_def configureAllowedOrigins_def init_CONFIG_ALLOWED_ORIGINS_def
  Boolean_def trim_def isWhiteSpace_def new_Set_def Set_add_def replace_trailing_slash_def

subsection \<open>The allow-list builder\<close>

text \<open>
  The content of the result, as a set: the non-empty trimmed entries, and the
  development origin in the development environment, each with one trailing slash
  removed. In any other environment the development origin is in the result only as
  the normal form of a configured entry.
\<close>

lemma set_build:
  "set (build B env) =
     replace_trailing_slash `
       ({t \<in> trim ` set B. t \<noteq> []} \<union>
        (if env = Some ''development'' then {''http://localhost:5173''} else {}))"
proof -
  have entries: "{t \<in> trim ` {b \<in> set B. b \<noteq> []}. t \<noteq> []} = {t \<in> trim ` set B. t \<noteq> []}"
    using trim_Nil by fastforce
  have "set (build B env) =
     replace_trailing_slash `
       ({t \<in> trim ` {b \<in> set B. b \<noteq> []}. t \<noteq> []} \<union>
        (if env = Some ''development'' then {''http://localhost:5173''} else {}))"
    by (auto simp: build_def configureAllowedOrigins_def Let_def
        init_CONFIG_ALLOWED_ORIGINS_def set_new_Set Boolean_def)
  then show ?thesis
    by (simp only: entries)
qed

lemma build_production_localhost:
  assumes "''http://localhost:5173'' \<in> set (build B (Some ''production''))"
  shows "\<exists>b \<in> set B. replace_trailing_slash (trim b) = ''http://localhost:5173''"
  using assms by (auto simp: set_build)

lemma build_filtered:
  "build B env =
     map replace_trailing_slash
       (new_Set (filter Boolean
          (map trim (filter Boolean B)
           @ (if env = Some ''development'' then [''http://localhost:5173''] else []))))"
  by (simp add: build_def configureAllowedOrigins_def init_CONFIG_ALLOWED_ORIGINS_def
      filter_new_Set)

text \<open>
  Claim C1, at the input of the claim: for the base sequence
  \<open>["http://a.com/", "http://a.com"]\<close> in the production environment the builder
  returns two elements, both \<open>http://a.com\<close>, and not the single element the claim
  gives. The two entries differ when the \<^verbatim>\<open>Set\<close> is built, and the trailing slash is
  removed only afterwards.
\<close>

theorem build_trailing_slash_duplicate:
  "build [''http://a.com/'', ''http://a.com''] (Some ''production'')
     = [''http://a.com'', ''http://a.com'']"
  by (simp add: eval_build)

text \<open>
  Claim C2, as stated, fails: the entry \<open>http://a.com//\<close> loses one slash and the
  element \<open>http://a.com/\<close> of the result still ends with one.
\<close>

theorem allow_list_invariant_counterexample:
  "\<not> (list_all no_trailing_slash (build [''http://a.com//''] (Some ''production''))
      \<and> distinct (build [''http://a.com//''] (Some ''production'')))"
  by (simp add: eval_build no_trailing_slash_def endsWith_slash_def)

text \<open>
  Claim C2, amended: for every base sequence none of whose trimmed entries ends with
  two slashes, and for every environment, no element of the final allow-list ends with
  the character \<open>/\<close>. Exactly one trailing slash is removed from an entry.
\<close>

theorem allow_list_no_trailing_slash:
  assumes "\<forall>b \<in> set B. \<not> endsWith_two_slashes (trim b)"
  shows "list_all no_trailing_slash (build B env)"
proof -
  have "\<not> endsWith_two_slashes ''http://localhost:5173''"
    by (simp add: endsWith_two_slashes_def endsWith_slash_def)
  with assms show ?thesis
    unfolding list_all_iff no_trailing_slash_def
    by (auto simp: set_build endsWith_slash_replace split: if_splits)
qed

theorem allow_list_no_trailing_slash_witness:
  "\<not> endsWith_two_slashes (trim ''http://a.com/'')
   \<and> \<not> endsWith_two_slashes (trim '' http://b.com '')
   \<and> list_all no_trailing_slash
        (build [''http://a.com/'', '' http://b.com ''] (Some ''development''))"
  using allow_list_no_trailing_slash
          [of "[''http://a.com/'', '' http://b.com '']" "Some ''development''"]
  by (simp add: trim_def isWhiteSpace_def endsWith_two_slashes_def endsWith_slash_def)

text \<open>
  Claim C3: for every base sequence \<open>B\<close>, the result of the builder in the development
  environment contains the origin \<open>http://localhost:5173\<close>.
\<close>

theorem build_development_contains_localhost:
  "''http://localhost:5173'' \<in> set (build B (Some ''development''))"
proof -
  have "replace_trailing_slash ''http://localhost:5173'' = ''http://localhost:5173''"
    by (simp add: replace_trailing_slash_def)
  then show ?thesis
    by (simp add: set_build image_iff)
qed

text \<open>
  Claim C4: empty and white-space-only entries are discarded. The base sequence
  \<open>["", "  ", "http://b.com"]\<close> in the production environment yields exactly
  \<open>["http://b.com"]\<close>; and in general an entry that trims to the empty string, wherever
  it stands in the base sequence, leaves the result as it is without that entry.
\<close>

theorem build_discards_empty_entries:
  "build ['''', ''  '', ''http://b.com''] (Some ''production'') = [''http://b.com'']
   \<and> (trim b = [] \<longrightarrow> build (B1 @ b # B2) env = build (B1 @ B2) env)"
proof
  show "build ['''', ''  '', ''http://b.com''] (Some ''production'') = [''http://b.com'']"
    by (simp add: eval_build)
  show "trim b = [] \<longrightarrow> build (B1 @ b # B2) env = build (B1 @ B2) env"
    by (simp add: build_filtered Boolean_def)
qed

theorem build_discards_empty_entries_witness:
  "trim ''  '' = []
   \<and> build ([''''] @ ''  '' # [''http://b.com'']) (Some ''production'')
       = build ([''''] @ [''http://b.com'']) (Some ''production'')"
  using conjunct2 [OF build_discards_empty_entries
                        [of "''  ''" "['''']" "[''http://b.com'']" "Some ''production''"]]
  by (simp add: trim_def isWhiteSpace_def)

text \<open>
  Claim C5, as stated, fails: in the development environment the call changes the
  configuration array that it reads.
\<close>

theorem configureAllowedOrigins_pure_counterexample:
  "snd (configureAllowedOrigins
          \<lparr>CONFIG_NODE_ENV = Some ''development'',
           CONFIG_ALLOWED_ORIGINS = [''http://a.com'']\<rparr>)
     \<noteq> \<lparr>CONFIG_NODE_ENV = Some ''development'',
         CONFIG_ALLOWED_ORIGINS = [''http://a.com'']\<rparr>"
  by (simp add: configureAllowedOrigins_def)

lemma configureAllowedOrigins_again:
  "fst (configureAllowedOrigins (snd (configureAllowedOrigins c)))
     = fst (configureAllowedOrigins c)"
  by (simp add: configureAllowedOrigins_def Let_def new_Set_snoc_twice)

lemma result_after_calls:
  "fst (configureAllowedOrigins ((call_again ^^ n) c)) = fst (configureAllowedOrigins c)"
  by (induction n) (simp_all add: call_again_def configureAllowedOrigins_again)

text \<open>
  Claim C5, amended: after any number of earlier calls, a call of the builder returns
  the same result as a single call. In every environment other than \<open>development\<close>
  the call leaves the configuration as it is; in \<open>development\<close> each call appends
  \<open>http://localhost:5173\<close> to the configuration array \<^verbatim>\<open>CONFIG_ALLOWED_ORIGINS\<close>.
\<close>

theorem configureAllowedOrigins_repeated_calls:
  "fst (configureAllowedOrigins ((call_again ^^ n) c)) = fst (configureAllowedOrigins c)
   \<and> (CONFIG_NODE_ENV c \<noteq> Some ''development'' \<longrightarrow> snd (configureAllowedOrigins c) = c)
   \<and> (CONFIG_NODE_ENV c = Some ''development'' \<longrightarrow>
        snd (configureAllowedOrigins c)
          = c\<lparr>CONFIG_ALLOWED_ORIGINS :=
                 CONFIG_ALLOWED_ORIGINS c @ [''http://localhost:5173'']\<rparr>)"
  by (simp add: result_after_calls) (simp add: configureAllowedOrigins_def)

theorem configureAllowedOrigins_repeated_calls_witness:
  "CONFIG_NODE_ENV \<lparr>CONFIG_NODE_ENV = Some ''production'',
                    CONFIG_ALLOWED_ORIGINS = [''http://a.com/'']\<rparr> \<noteq> Some ''development''
   \<and> snd (configureAllowedOrigins
            \<lparr>CONFIG_NODE_ENV = Some ''production'',
             CONFIG_ALLOWED_ORIGINS = [''http://a.com/'']\<rparr>)
       = \<lparr>CONFIG_NODE_ENV = Some ''production'', CONFIG_ALLOWED_ORIGINS = [''http://a.com/'']\<rparr>
   \<and> CONFIG_NODE_ENV \<lparr>CONFIG_NODE_ENV = Some ''development'',
                      CONFIG_ALLOWED_ORIGINS = [''http://a.com/'']\<rparr> = Some ''development''
   \<and> snd (configureAllowedOrigins
            \<lparr>CONFIG_NODE_ENV = Some ''development'',
             CONFIG_ALLOWED_ORIGINS = [''http://a.com/'']\<rparr>)
       = \<lparr>CONFIG_NODE_ENV = Some ''development'',
          CONFIG_ALLOWED_ORIGINS = [''http://a.com/'', ''http://localhost:5173'']\<rparr>
   \<and> fst (configureAllowedOrigins ((call_again ^^ 2)
            \<lparr>CONFIG_NODE_ENV = Some ''development'',
             CONFIG_ALLOWED_ORIGINS = [''http://a.com/'']\<rparr>))
       = [''http://a.com'', ''http://localhost:5173'']"
  using configureAllowedOrigins_repeated_calls
          [of 2 "\<lparr>CONFIG_NODE_ENV = Some ''development'',
                  CONFIG_ALLOWED_ORIGINS = [''http://a.com/'']\<rparr>"]
        configureAllowedOrigins_repeated_calls
          [of 0 "\<lparr>CONFIG_NODE_ENV = Some ''production'',
                  CONFIG_ALLOWED_ORIGINS = [''http://a.com/'']\<rparr>"]
  by (simp add: configureAllowedOrigins_def new_Set_def Set_add_def Boolean_def
      replace_trailing_slash_def)

text \<open>
  Claim C9: the two copies of the allow-list construction compute the same function.
  For every module state the two copies of \<^verbatim>\<open>configureAllowedOrigins\<close> return the same
  result and leave the same state, and for every base sequence and environment the
  two builders agree.
\<close>

theorem configureAllowedOrigins_copies_agree:
  "configureAllowedOrigins2 c = configureAllowedOrigins c \<and> build2 B env = build B env"
  by (simp add: configureAllowedOrigins2_def configureAllowedOrigins_def build2_def build_def
      init_CONFIG_ALLOWED_ORIGINS2_def init_CONFIG_ALLOWED_ORIGINS_def)

subsection \<open>The cross-origin check and the routes\<close>

text \<open>
  Claim C6: the cross-origin check rejects a request exactly when its declared origin
  is non-empty and not a member of the allow-list. A request with no origin is allowed,
  a request whose origin is an entry of the allow-list is allowed, and a non-empty
  origin outside the allow-list is rejected with the message
  \<open>CORS blocked for origin: \<close> followed by that origin.
\<close>

theorem cors_origin_rejects_iff:
  "((\<exists>e. cors_origin allowed origin' = Inl e)
      \<longleftrightarrow> (\<exists>v. origin' = Some v \<and> v \<noteq> [] \<and> v \<notin> set allowed))
   \<and> cors_origin allowed None = Inr True
   \<and> (v \<in> set allowed \<longrightarrow> cors_origin allowed (Some v) = Inr True)
   \<and> (v \<noteq> [] \<and> v \<notin> set allowed \<longrightarrow>
        cors_origin allowed (Some v) = Inl (Error (''CORS blocked for origin: '' @ v)))"
  by (auto simp: cors_origin_def Boolean_def Array_includes_def split: option.splits)

theorem cors_origin_rejects_iff_witness:
  "''http://localhost:5173'' \<in> set [''http://localhost:5173'']
   \<and> cors_origin [''http://localhost:5173''] (Some ''http://localhost:5173'') = Inr True
   \<and> ''http://evil.com'' \<noteq> [] \<and> ''http://evil.com'' \<notin> set [''http://localhost:5173'']
   \<and> cors_origin [''http://localhost:5173''] (Some ''http://evil.com'')
       = Inl (Error ''CORS blocked for origin: http://evil.com'')"
  using cors_origin_rejects_iff
          [of "[''http://localhost:5173'']" None "''http://localhost:5173''"]
        cors_origin_rejects_iff
          [of "[''http://localhost:5173'']" None "''http://evil.com''"]
  by simp

text \<open>
  The model on requests that the registered routes do not name literally: a HEAD
  request, a path in another letter case or with a trailing slash, a preflight, a
  body that does not parse, and a conditional request.
\<close>

lemma path_matches_root [simp]: "path_matches release ''/'' ''/''"
  by (simp add: path_matches_def toLowerCase_def)

lemma path_matches_nope [simp]:
  "\<not> path_matches release ''/'' ''/nope''" "\<not> path_matches release ''/health'' ''/nope''"
  by (cases release; simp add: path_matches_def toLowerCase_def endsWith_slash_def)+

lemma path_matches_health:
  "path_matches release ''/health'' ''/health''"
  "path_matches release ''/health'' ''/HEALTH''"
  "path_matches release ''/health'' ''/health/''"
  "\<not> path_matches release ''/health'' ''/health//''"
  by (cases release; simp add: path_matches_def toLowerCase_def endsWith_slash_def)+

lemma path_matches_root_releases:
  "path_matches Express5 ''/'' ''//''" "\<not> path_matches Express4 ''/'' ''//''"
  "path_matches Express4 ''/'' []" "\<not> path_matches Express5 ''/'' []"
  by (simp_all add: path_matches_def toLowerCase_def endsWith_slash_def)

lemma app_head_root:
  assumes "http_method req = HEAD" "path req = ''/''" "body_failure req = None"
    "cors_origin (allowedOrigins srv) (origin req) = Inr True"
  shows "app release srv p req = Inr (\<lparr>status = (if validators_fresh req then 304 else 200),
                                        body = NoBody\<rparr>, [])"
  using assms
  by (simp add: app_def get_route_def answer_def res_send_def req_fresh_def handleRoot_def)

lemma app_options:
  assumes "http_method req = OPTIONS" "body_failure req = None"
    "cors_origin (allowedOrigins srv) (origin req) = Inr True"
  shows "app release srv p req = Inr (\<lparr>status = 204, body = NoBody\<rparr>, [])"
  using assms by (simp add: app_def)

lemma app_body_failure:
  assumes "body_failure req = Some e"
  shows "app release srv p req = Inl e"
  using assms by (simp add: app_def)

lemma app_body_failure_status:
  assumes "body_failure req = Some (HttpError 400 m)"
  shows "client_status (app release srv p req) = 400"
  using assms by (simp add: app_def client_status_def)

lemma app_rejected_status:
  assumes "body_failure req = None"
    "cors_origin (allowedOrigins srv) (origin req) = Inl e"
  shows "client_status (app release srv p req) = 500"
proof -
  from assms(2) obtain m where "e = Error m"
    by (auto simp: cors_origin_def split: option.splits if_splits)
  with assms show ?thesis
    by (simp add: app_def client_status_def)
qed

lemma app_health:
  assumes "http_method req = GET" "path_matches release ''/health'' (path req)"
    "\<not> path_matches release ''/'' (path req)"
    "body_failure req = None" "\<not> validators_fresh req"
    "cors_origin (allowedOrigins srv) (origin req) = Inr True"
  shows "app release srv p req = Inr (handleHealthCheck srv p)"
  using assms
  by (simp add: app_def get_route_def answer_def res_send_def req_fresh_def
      handleHealthCheck_def res_json_def)

lemma app_root_fresh:
  assumes "http_method req = GET" "path req = ''/''" "body_failure req = None"
    "validators_fresh req" "cors_origin (allowedOrigins srv) (origin req) = Inr True"
  shows "app release srv p req = Inr (\<lparr>status = 304, body = NoBody\<rparr>, [])"
  using assms
  by (simp add: app_def get_route_def answer_def res_send_def req_fresh_def handleRoot_def)

text \<open>
  Claim C7, as stated, fails: a GET request for the path \<open>/\<close> that declares an origin
  outside the allow-list is stopped by the cross-origin check, and \<^verbatim>\<open>handleRoot\<close> never
  answers it.
\<close>

theorem routing_root_counterexample:
  "\<not> responds
       (app Express5 (startup (Some ''production'') (Finite 5000) [''http://localhost:5173''])
            \<lparr>GOOGLE_API_KEY = None, toISOString = ''2025-01-01T00:00:00.000Z'',
             uptime = Finite 12\<rparr>
            \<lparr>http_method = GET, path = ''/'', origin = Some ''http://evil.com'',
             body_failure = None, validators_fresh = False\<rparr>)
       200 (Text ''welcome to the default page'')
   \<and> \<not> responds
       (app Express4 (startup (Some ''production'') (Finite 5000) [''http://localhost:5173''])
            \<lparr>GOOGLE_API_KEY = None, toISOString = ''2025-01-01T00:00:00.000Z'',
             uptime = Finite 12\<rparr>
            \<lparr>http_method = GET, path = ''/'', origin = Some ''http://evil.com'',
             body_failure = None, validators_fresh = False\<rparr>)
       200 (Text ''welcome to the default page'')"
  by (simp add: responds_def app_def cors_origin_def Array_includes_def eval_build)

text \<open>
  Claim C7, amended. Take a request whose body \<^verbatim>\<open>express.json()\<close> accepts. If the
  cross-origin check allows it, then: a GET request for the path \<open>/\<close> that is not a
  conditional request with matching validators is answered with status 200 and the
  body \<open>welcome to the default page\<close>; and a request that is neither OPTIONS nor HEAD
  and matches no registered route (such as GET \<open>/nope\<close>) is answered with status 404
  and the JSON body \<open>{"error": "Not found"}\<close>, where a GET route matches a path without
  regard to letter case and to one trailing slash. If the cross-origin check rejects
  the request, no route handler answers it: the outcome is the error of the check.
\<close>

theorem routing_after_cors:
  assumes "body_failure req = None"
  shows "(cors_origin (allowedOrigins srv) (origin req) = Inr True \<longrightarrow>
            (http_method req = GET \<and> path req = ''/'' \<and> \<not> validators_fresh req \<longrightarrow>
               app release srv p req
                 = Inr (\<lparr>status = 200, body = Text ''welcome to the default page''\<rparr>, []))
          \<and> (http_method req \<noteq> OPTIONS \<and> http_method req \<noteq> HEAD
              \<and> \<not> (http_method req = GET
                     \<and> (path_matches release ''/'' (path req)
                        \<or> path_matches release ''/health'' (path req))) \<longrightarrow>
               app release srv p req
                 = Inr (\<lparr>status = 404,
                         body = Json (JObject [(''error'', JString ''Not found'')])\<rparr>, [])))
       \<and> (\<forall>e. cors_origin (allowedOrigins srv) (origin req) = Inl e \<longrightarrow>
                 app release srv p req = Inl e)"
proof (intro conjI impI allI)
  assume "cors_origin (allowedOrigins srv) (origin req) = Inr True"
    and "http_method req = GET \<and> path req = ''/'' \<and> \<not> validators_fresh req"
  with assms show "app release srv p req
      = Inr (\<lparr>status = 200, body = Text ''welcome to the default page''\<rparr>, [])"
    by (simp add: app_def get_route_def answer_def res_send_def req_fresh_def handleRoot_def)
next
  assume "cors_origin (allowedOrigins srv) (origin req) = Inr True"
    and unmatched: "http_method req \<noteq> OPTIONS \<and> http_method req \<noteq> HEAD
      \<and> \<not> (http_method req = GET
             \<and> (path_matches release ''/'' (path req)
                \<or> path_matches release ''/health'' (path req)))"
  moreover from unmatched
  have "\<not> get_route release ''/'' req" "\<not> get_route release ''/health'' req"
    by (auto simp: get_route_def)
  ultimately show "app release srv p req
      = Inr (\<lparr>status = 404,
              body = Json (JObject [(''error'', JString ''Not found'')])\<rparr>, [])"
    using assms
    by (simp add: app_def answer_def res_send_def req_fresh_def notFound_def res_json_def)
next
  fix e
  assume "cors_origin (allowedOrigins srv) (origin req) = Inl e"
  with assms show "app release srv p req = Inl e"
    by (simp add: app_def)
qed

theorem routing_after_cors_witness:
  "body_failure \<lparr>http_method = GET, path = ''/'', origin = None,
                 body_failure = None, validators_fresh = False\<rparr> = None
   \<and> cors_origin
       (allowedOrigins (startup (Some ''production'') (Finite 5000) [''http://localhost:5173'']))
       None = Inr True
   \<and> app Express5 (startup (Some ''production'') (Finite 5000) [''http://localhost:5173''])
         \<lparr>GOOGLE_API_KEY = None, toISOString = ''2025-01-01T00:00:00.000Z'',
          uptime = Finite 12\<rparr>
         \<lparr>http_method = GET, path = ''/'', origin = None,
          body_failure = None, validators_fresh = False\<rparr>
       = Inr (\<lparr>status = 200, body = Text ''welcome to the default page''\<rparr>, [])
   \<and> cors_origin
       (allowedOrigins (startup (Some ''production'') (Finite 5000) [''http://localhost:5173'']))
       (Some ''http://localhost:5173'') = Inr True
   \<and> \<not> path_matches Express4 ''/'' ''/nope'' \<and> \<not> path_matches Express4 ''/health'' ''/nope''
   \<and> app Express4 (startup (Some ''production'') (Finite 5000) [''http://localhost:5173''])
         \<lparr>GOOGLE_API_KEY = None, toISOString = ''2025-01-01T00:00:00.000Z'',
          uptime = Finite 12\<rparr>
         \<lparr>http_method = GET, path = ''/nope'', origin = Some ''http://localhost:5173'',
          body_failure = None, validators_fresh = False\<rparr>
       = Inr (\<lparr>status = 404,
               body = Json (JObject [(''error'', JString ''Not found'')])\<rparr>, [])
   \<and> cors_origin
       (allowedOrigins (startup (Some ''production'') (Finite 5000) [''http://localhost:5173'']))
       (Some ''http://evil.com'') = Inl (Error ''CORS blocked for origin: http://evil.com'')
   \<and> app Express5 (startup (Some ''production'') (Finite 5000) [''http://localhost:5173''])
         \<lparr>GOOGLE_API_KEY = None, toISOString = ''2025-01-01T00:00:00.000Z'',
          uptime = Finite 12\<rparr>
         \<lparr>http_method = GET, path = ''/'', origin = Some ''http://evil.com'',
          body_failure = None, validators_fresh = False\<rparr>
       = Inl (Error ''CORS blocked for origin: http://evil.com'')"
  using routing_after_cors
          [of "\<lparr>http_method = GET, path = ''/'', origin = None,
                body_failure = None, validators_fresh = False\<rparr>"
              "startup (Some ''production'') (Finite 5000) [''http://localhost:5173'']"
              Express5
              "\<lparr>GOOGLE_API_KEY = None, toISOString = ''2025-01-01T00:00:00.000Z'',
                uptime = Finite 12\<rparr>"]
        routing_after_cors
          [of "\<lparr>http_method = GET, path = ''/nope'', origin = Some ''http://localhost:5173'',
                body_failure = None, validators_fresh = False\<rparr>"
              "startup (Some ''production'') (Finite 5000) [''http://localhost:5173'']"
              Express4
              "\<lparr>GOOGLE_API_KEY = None, toISOString = ''2025-01-01T00:00:00.000Z'',
                uptime = Finite 12\<rparr>"]
        routing_after_cors
          [of "\<lparr>http_method = GET, path = ''/'', origin = Some ''http://evil.com'',
                body_failure = None, validators_fresh = False\<rparr>"
              "startup (Some ''production'') (Finite 5000) [''http://localhost:5173'']"
              Express5
              "\<lparr>GOOGLE_API_KEY = None, toISOString = ''2025-01-01T00:00:00.000Z'',
                uptime = Finite 12\<rparr>"]
  by (simp add: eval_build cors_origin_def Array_includes_def)

subsection \<open>The health handler\<close>

lemma stringify_elements_strings: "stringify_elements (map JSString xs) = map JString xs"
  by (induction xs) simp_all

text \<open>
  The JSON body of every health response. The member \<open>env\<close> of \<open>api\<close> is there
  exactly when \<^verbatim>\<open>NODE_ENV\<close> is set.
\<close>

lemma health_body:
  "body (fst (handleHealthCheck srv p)) =
     Json (JObject
       [(''status'', JString ''healthy''),
        (''timestamp'', JString (toISOString p)),
        (''api'', JObject
           ([(''running'', JBoolean True),
             (''port'', (case CONFIG_PORT srv of Finite r \<Rightarrow> JNumber r | _ \<Rightarrow> JNull))]
            @ (case CONFIG_NODE_ENV srv of None \<Rightarrow> [] | Some e \<Rightarrow> [(''env'', JString e)])
            @ [(''allowedOrigins'', JArray (map JString (allowedOrigins srv)))])),
        (''gemini'', JObject
           [(''configured'', JBoolean (hasApiKey p)),
            (''model'',
             JString (if hasApiKey p then ''gemini-2.5-flash'' else ''unavailable''))]),
        (''uptime'', (case uptime p of Finite r \<Rightarrow> JNumber r | _ \<Rightarrow> JNull))])"
  by (simp add: handleHealthCheck_def res_json_def healthStatus_def stringify_elements_strings
      split: option.split)

lemma health_status: "status (fst (handleHealthCheck srv p)) = 200"
  by (simp add: handleHealthCheck_def res_json_def)

lemma health_field_values:
  "response_field (fst (handleHealthCheck srv p)) [''status''] = Some (JString ''healthy'')"
  "response_field (fst (handleHealthCheck srv p)) [''timestamp'']
     = Some (JString (toISOString p))"
  "response_field (fst (handleHealthCheck srv p)) [''api'', ''running'']
     = Some (JBoolean True)"
  "response_field (fst (handleHealthCheck srv p)) [''api'', ''port'']
     = Some (case CONFIG_PORT srv of Finite r \<Rightarrow> JNumber r | _ \<Rightarrow> JNull)"
  "response_field (fst (handleHealthCheck srv p)) [''api'', ''env'']
     = map_option JString (CONFIG_NODE_ENV srv)"
  "response_field (fst (handleHealthCheck srv p)) [''api'', ''allowedOrigins'']
     = Some (JArray (map JString (allowedOrigins srv)))"
  "response_field (fst (handleHealthCheck srv p)) [''gemini'', ''configured'']
     = Some (JBoolean (hasApiKey p))"
  "response_field (fst (handleHealthCheck srv p)) [''gemini'', ''model'']
     = Some (JString (if hasApiKey p then ''gemini-2.5-flash'' else ''unavailable''))"
  "response_field (fst (handleHealthCheck srv p)) [''uptime'']
     = Some (case uptime p of Finite r \<Rightarrow> JNumber r | _ \<Rightarrow> JNull)"
  by (simp_all add: response_field_def health_body split: option.split)

lemma health_fields_present:
  assumes "CONFIG_NODE_ENV srv = Some e"
  shows "list_all (\<lambda>ks. response_field (fst (handleHealthCheck srv p)) ks \<noteq> None)
           [[''status''], [''timestamp''], [''api'', ''running''], [''api'', ''port''],
            [''api'', ''env''], [''api'', ''allowedOrigins''], [''gemini'', ''configured''],
            [''gemini'', ''model''], [''uptime'']]"
  using assms by (simp add: health_field_values)

lemma health_model_unavailable_iff:
  "response_field (fst (handleHealthCheck srv p)) [''gemini'', ''model'']
     = Some (JString ''unavailable'')
   \<longleftrightarrow> response_field (fst (handleHealthCheck srv p)) [''gemini'', ''configured'']
     = Some (JBoolean False)"
  by (simp add: health_field_values)

text \<open>
  Claim C8, at a server started without \<^verbatim>\<open>NODE_ENV\<close>: the health response has no
  field \<open>api.env\<close>. \<^verbatim>\<open>CONFIG_NODE_ENV\<close> is \<^verbatim>\<open>undefined\<close> there, and \<^verbatim>\<open>res.json\<close>
  leaves a property with that value out of the body. The other eight fields are in
  every response, all nine when \<^verbatim>\<open>NODE_ENV\<close> is set, and \<open>gemini.model\<close> is
  \<open>unavailable\<close> exactly when \<open>gemini.configured\<close> is false
  (\<open>health_field_values\<close>, \<open>health_fields_present\<close>,
  \<open>health_model_unavailable_iff\<close>).
\<close>

theorem health_env_field_absent:
  "response_field
     (fst (handleHealthCheck
             (startup None (Finite 5000) [''http://localhost:5173''])
             \<lparr>GOOGLE_API_KEY = Some ''key'', toISOString = ''2025-01-01T00:00:00.000Z'',
              uptime = Finite 12\<rparr>))
     [''api'', ''env''] = None"
  by (simp add: response_field_def handleHealthCheck_def res_json_def healthStatus_def
      eval_build)

subsection \<open>The task form\<close>

text \<open>
  Claim C10: when the input text trims to the empty string, \<^verbatim>\<open>addTask\<close> changes
  nothing (tasks, counter and input text stay as they are). When the trimmed text is
  not empty, it appends exactly one task, whose text is the trimmed input, to the end
  of the list, keeps every task that was there and the counter, and clears the input
  text.
\<close>

theorem addTask_effect:
  "(trim (text' s) = [] \<longrightarrow> addTask now s = s)
   \<and> (trim (text' s) \<noteq> [] \<longrightarrow>
        tasks (addTask now s) = tasks s @ [\<lparr>task_id = now, task_text = trim (text' s)\<rparr>]
        \<and> length (tasks (addTask now s)) = length (tasks s) + 1
        \<and> take (length (tasks s)) (tasks (addTask now s)) = tasks s
        \<and> count (addTask now s) = count s
        \<and> text' (addTask now s) = [])"
  by (simp add: addTask_def Let_def Boolean_def)

theorem addTask_effect_witness:
  "trim (text' \<lparr>count = 3, text' = ''   '',
                tasks = [\<lparr>task_id = 1, task_text = ''a''\<rparr>]\<rparr>) = []
   \<and> addTask 7 \<lparr>count = 3, text' = ''   '', tasks = [\<lparr>task_id = 1, task_text = ''a''\<rparr>]\<rparr>
       = \<lparr>count = 3, text' = ''   '', tasks = [\<lparr>task_id = 1, task_text = ''a''\<rparr>]\<rparr>
   \<and> trim (text' \<lparr>count = 3, text' = '' buy milk '',
                  tasks = [\<lparr>task_id = 1, task_text = ''a''\<rparr>]\<rparr>) \<noteq> []
   \<and> tasks (addTask 7 \<lparr>count = 3, text' = '' buy milk '',
                       tasks = [\<lparr>task_id = 1, task_text = ''a''\<rparr>]\<rparr>)
       = [\<lparr>task_id = 1, task_text = ''a''\<rparr>, \<lparr>task_id = 7, task_text = ''buy milk''\<rparr>]
   \<and> count (addTask 7 \<lparr>count = 3, text' = '' buy milk '',
                       tasks = [\<lparr>task_id = 1, task_text = ''a''\<rparr>]\<rparr>) = 3
   \<and> text' (addTask 7 \<lparr>count = 3, text' = '' buy milk '',
                       tasks = [\<lparr>task_id = 1, task_text = ''a''\<rparr>]\<rparr>) = []"
  using addTask_effect
          [of "\<lparr>count = 3, text' = ''   '', tasks = [\<lparr>task_id = 1, task_text = ''a''\<rparr>]\<rparr>" 7]
        addTask_effect
          [of "\<lparr>count = 3, text' = '' buy milk '',
                tasks = [\<lparr>task_id = 1, task_text = ''a''\<rparr>]\<rparr>" 7]
  by (simp add: trim_def isWhiteSpace_def)

end
